theory Spec2Isabelle
  imports Main
begin

section \<open>Python values, keyword arguments and exceptions\<close>

text \<open>
  The dispatcher of \<^verbatim>\<open>function_overloading.py\<close> never looks inside the values it
  passes on: it counts the positional arguments and reads the names of the keyword
  arguments. Values are therefore a small datatype. A keyword-argument dictionary is an
  association list in insertion order; the source only reads its keys.
\<close>

datatype pyval = PyNone | PyInt int | PyStr string | PyObj nat

type_synonym kwargs = "(string \<times> pyval) list"

text \<open>
  The message of \<^verbatim>\<open>OverloadedFunctionError\<close> is produced by
  \<^verbatim>\<open>"... args={}, kwargs={}".format(args, kwargs)\<close>. The rendering of a
  value by Python's \<^verbatim>\<open>repr\<close> is left symbolic: a message is the list of its
  literal pieces and of the operands that \<^verbatim>\<open>format\<close> renders in between.
\<close>

datatype message_part = Literal string | ReprTuple "pyval list" | ReprDict kwargs

text \<open>The ways in which Python's argument binding raises \<^verbatim>\<open>TypeError\<close>.\<close>

datatype type_error =
    MultipleValuesForArgument string
  | MultipleValuesForKeywordArgument string
  | MissingPositionalArgument string
  | NoneTypeNotCallable

datatype error =
    OverloadedFunctionError "message_part list"
  | TypeError type_error
  | KeyError string
  | AttributeError string
  | PyException string

section \<open>Callables and their introspection\<close>

text \<open>
  What \<^verbatim>\<open>inspect.getfullargspec\<close> reports about a callable: the names of the
  positional parameters, the name of the \<^verbatim>\<open>*args\<close> parameter (or
  \<^verbatim>\<open>None\<close>), the name of the \<^verbatim>\<open>**kwargs\<close> parameter (or
  \<^verbatim>\<open>None\<close>), the default values, and the keyword-only parameters with their
  defaults. (The annotations are never read by the source and are left out.)
\<close>

record FullArgSpec =
  fas_args :: "string list"
  fas_varargs :: "string option"
  fas_varkw :: "string option"
  fas_defaults :: "pyval list option"
  fas_kwonlyargs :: "string list"
  fas_kwonlydefaults :: "kwargs option"

text \<open>
  \<^verbatim>\<open>inspect.isfunction\<close> holds of a plain function, \<^verbatim>\<open>inspect.ismethod\<close>
  of a bound method; every other callable (a class, a builtin, an instance with
  \<^verbatim>\<open>__call__\<close>) is neither.
\<close>

datatype callable_kind = PlainFunction | BoundMethod | OtherCallable

text \<open>
  A callable object, as far as the source observes it:
  \<^item> \<open>kind\<close>: what \<^verbatim>\<open>isfunction\<close> and \<^verbatim>\<open>ismethod\<close> answer;
  \<^item> \<open>qualname\<close>: the attribute \<^verbatim>\<open>__qualname__\<close>, \<open>None\<close> when the object
    has no such attribute (an ordinary instance with \<^verbatim>\<open>__call__\<close>);
  \<^item> \<open>truthy\<close>: what \<^verbatim>\<open>bool(function)\<close> answers
    (\<^verbatim>\<open>__call__\<close> tests \<^verbatim>\<open>if not function\<close>);
  \<^item> \<open>getfullargspec\<close>: the result of \<^verbatim>\<open>getfullargspec(function)\<close>;
    callables that cannot be introspected are outside this model;
  \<^item> \<open>body\<close>: the result of \<^verbatim>\<open>function(*args, **kwargs)\<close>, a returned value
    or a raised exception. Python's own binding of the arguments to the parameters of
    the callable is part of it.
\<close>

record callable =
  kind :: callable_kind
  qualname :: "string option"
  truthy :: bool
  getfullargspec :: FullArgSpec
  body :: "pyval list \<Rightarrow> kwargs \<Rightarrow> error + pyval"

definition isfunction :: "callable \<Rightarrow> bool" where
  "isfunction function = (kind function = PlainFunction)"

definition ismethod :: "callable \<Rightarrow> bool" where
  "ismethod function = (kind function = BoundMethod)"

text \<open>
  \<^verbatim>\<open>bool(x)\<close> for \<^verbatim>\<open>x\<close> a string or \<^verbatim>\<open>None\<close>, as applied to
  \<^verbatim>\<open>fullargspec.varargs\<close> and \<^verbatim>\<open>fullargspec.varkw\<close>.
\<close>

fun py_bool :: "string option \<Rightarrow> bool" where
  "py_bool None = False"
| "py_bool (Some name) = (name \<noteq> [])"

text \<open>
  A parameter name is a Python identifier, hence not the empty string. The record type
  cannot say so; theorems that depend on it assume it.
\<close>

definition declared_names_nonempty :: "callable \<Rightarrow> bool" where
  "declared_names_nonempty function =
     (fas_varargs (getfullargspec function) \<noteq> Some [] \<and>
      fas_varkw (getfullargspec function) \<noteq> Some [])"

section \<open>OverloadedFunction\<close>

record OverloadedFunction =
  function_registry :: "callable list"

definition OverloadedFunction_init :: OverloadedFunction where
  "OverloadedFunction_init = \<lparr>function_registry = []\<rparr>"

text \<open>
  The loop of \<^verbatim>\<open>OverloadedFunction.lookup\<close> (lines 38 to 55). Falling off the end
  of the loop returns \<^verbatim>\<open>None\<close>. The slice
  \<^verbatim>\<open>fullargspec.args[len(args):]\<close> is empty when there are more positional
  arguments than names, as \<^const>\<open>drop\<close> is.
\<close>

fun lookup_loop :: "callable list \<Rightarrow> pyval list \<Rightarrow> kwargs \<Rightarrow> callable option" where
  "lookup_loop [] args kwargs = None"
| "lookup_loop (function # rest) args kwargs =
     (let fullargspec = getfullargspec function in
      if length args \<le> length (fas_args fullargspec) \<or> py_bool (fas_varargs fullargspec)
      then
        (let remaining_args = drop (length args) (fas_args fullargspec) in
         if set (map fst kwargs) \<subseteq> set remaining_args \<or> py_bool (fas_varkw fullargspec)
         then Some function
         else lookup_loop rest args kwargs)
      else lookup_loop rest args kwargs)"

definition OverloadedFunction_lookup ::
  "OverloadedFunction \<Rightarrow> pyval list \<Rightarrow> kwargs \<Rightarrow> callable option" where
  "OverloadedFunction_lookup self args kwargs =
     lookup_loop (function_registry self) args kwargs"

definition OverloadedFunction_register ::
  "OverloadedFunction \<Rightarrow> callable \<Rightarrow> OverloadedFunction" where
  "OverloadedFunction_register self function =
     self\<lparr>function_registry := function_registry self @ [function]\<rparr>"

text \<open>
  The outcome of a call: the exception raised or the value returned, together with the
  list of the registered callables that were executed on the way.
\<close>

record call_outcome =
  invoked :: "callable list"
  outcome :: "error + pyval"

definition raise :: "error \<Rightarrow> call_outcome" where
  "raise e = \<lparr>invoked = [], outcome = Inl e\<rparr>"

definition no_match_message :: "pyval list \<Rightarrow> kwargs \<Rightarrow> message_part list" where
  "no_match_message args kwargs =
     [Literal ''Failed to find matching function for given arguments: args='',
      ReprTuple args, Literal '', kwargs='', ReprDict kwargs]"

text \<open>
  \<^verbatim>\<open>OverloadedFunction.__call__(self, *args, **kwargs)\<close> (lines 62 to 77), called
  as \<^verbatim>\<open>obj(*args, **kwargs)\<close>. The receiver is bound to the parameter
  \<^verbatim>\<open>self\<close>, so Python refuses a keyword argument of that name before the body
  runs. In the body, \<^verbatim>\<open>if not function\<close> holds when the lookup returned
  \<^verbatim>\<open>None\<close> and also when it returned a callable that is falsy.
\<close>

definition OverloadedFunction_call ::
  "OverloadedFunction \<Rightarrow> pyval list \<Rightarrow> kwargs \<Rightarrow> call_outcome" where
  "OverloadedFunction_call self args kwargs =
     (if ''self'' \<in> set (map fst kwargs)
      then raise (TypeError (MultipleValuesForArgument ''self''))
      else
        (case OverloadedFunction_lookup self args kwargs of
           None \<Rightarrow> raise (OverloadedFunctionError (no_match_message args kwargs))
         | Some function \<Rightarrow>
             if \<not> truthy function
             then raise (OverloadedFunctionError (no_match_message args kwargs))
             else \<lparr>invoked = [function], outcome = body function args kwargs\<rparr>))"

section \<open>The acceptance test in the words of the specification\<close>

text \<open>
  The remaining named parameters: those whose position is at or after the count of the
  positional arguments supplied.
\<close>

definition spec_remaining_parameters :: "string list \<Rightarrow> nat \<Rightarrow> string list" where
  "spec_remaining_parameters params n =
     map snd (filter (\<lambda>(i, p). n \<le> i) (enumerate 0 params))"

definition spec_positional_compatible :: "callable \<Rightarrow> pyval list \<Rightarrow> bool" where
  "spec_positional_compatible c args =
     (length args \<le> length (fas_args (getfullargspec c)) \<or>
      fas_varargs (getfullargspec c) \<noteq> None)"

definition spec_keyword_compatible :: "callable \<Rightarrow> pyval list \<Rightarrow> kwargs \<Rightarrow> bool" where
  "spec_keyword_compatible c args kwargs =
     ((\<forall>k \<in> set (map fst kwargs).
         k \<in> set (spec_remaining_parameters (fas_args (getfullargspec c)) (length args))) \<or>
      fas_varkw (getfullargspec c) \<noteq> None)"

definition spec_accepts :: "callable \<Rightarrow> pyval list \<Rightarrow> kwargs \<Rightarrow> bool" where
  "spec_accepts c args kwargs =
     (spec_positional_compatible c args \<and> spec_keyword_compatible c args kwargs)"

section \<open>Overloader\<close>

record Overloader =
  name_registry :: "string \<rightharpoonup> OverloadedFunction"

definition Overloader_init :: Overloader where
  "Overloader_init = \<lparr>name_registry = Map.empty\<rparr>"

text \<open>
  \<^verbatim>\<open>Overloader.register\<close> (lines 87 to 95). Reading
  \<^verbatim>\<open>function.__qualname__\<close> raises \<^verbatim>\<open>AttributeError\<close> on an object
  without that attribute, before the registry is touched. The dictionary is mutated in
  place; the model returns the new controller.
\<close>

definition Overloader_register :: "Overloader \<Rightarrow> callable \<Rightarrow> error + Overloader" where
  "Overloader_register self function =
     (case qualname function of
        None \<Rightarrow> Inl (AttributeError ''__qualname__'')
      | Some q \<Rightarrow>
          (let self1 =
                 (if q \<notin> dom (name_registry self)
                  then self\<lparr>name_registry := (name_registry self)(q \<mapsto> OverloadedFunction_init)\<rparr>
                  else self)
           in case name_registry self1 q of
                None \<Rightarrow> Inl (KeyError q)
              | Some overloaded \<Rightarrow>
                  Inr (self1\<lparr>name_registry :=
                         (name_registry self1)(q \<mapsto> OverloadedFunction_register overloaded function)\<rparr>)))"

text \<open>
  The two closures that \<^verbatim>\<open>Overloader.overload\<close> can return. Each captures the
  decorated callable and the controller object itself, not the controller's contents:
  calling a wrapper reads the registry as it is at that moment, so the call takes the
  current controller as an argument.
\<close>

datatype wrapper = function_wrapper callable | method_wrapper callable

text \<open>
  \<^verbatim>\<open>Overloader.overload\<close> (lines 97 to 116). When the callable is neither a
  function nor a bound method the end of the body is reached and Python returns
  \<^verbatim>\<open>None\<close>.
\<close>

definition Overloader_overload ::
  "Overloader \<Rightarrow> callable \<Rightarrow> error + (Overloader \<times> wrapper option)" where
  "Overloader_overload self function =
     (case Overloader_register self function of
        Inl e \<Rightarrow> Inl e
      | Inr self' \<Rightarrow>
          Inr (self',
               if isfunction function then Some (function_wrapper function)
               else if ismethod function then Some (method_wrapper function)
               else None))"

text \<open>
  \<^verbatim>\<open>function_wrapper(*args, **kwargs)\<close> (lines 106 to 108): every call binds.
\<close>

definition call_function_wrapper ::
  "Overloader \<Rightarrow> callable \<Rightarrow> pyval list \<Rightarrow> kwargs \<Rightarrow> call_outcome" where
  "call_function_wrapper self function args kwargs =
     (case qualname function of
        None \<Rightarrow> raise (AttributeError ''__qualname__'')
      | Some q \<Rightarrow>
          (case name_registry self q of
             None \<Rightarrow> raise (KeyError q)
           | Some function' \<Rightarrow> OverloadedFunction_call function' args kwargs))"

text \<open>
  Python's binding of a call to \<^verbatim>\<open>method_wrapper(_self, *args, **kwargs)\<close>: the
  first positional argument is the receiver, or else the keyword argument
  \<^verbatim>\<open>_self\<close> is.
\<close>

definition bind_method_wrapper ::
  "pyval list \<Rightarrow> kwargs \<Rightarrow> error + (pyval \<times> pyval list \<times> kwargs)" where
  "bind_method_wrapper wargs wkwargs =
     (case wargs of
        [] \<Rightarrow>
          (case map_of wkwargs ''_self'' of
             None \<Rightarrow> Inl (TypeError (MissingPositionalArgument ''_self''))
           | Some receiver \<Rightarrow> Inr (receiver, [], filter (\<lambda>(k, v). k \<noteq> ''_self'') wkwargs))
      | receiver # args \<Rightarrow>
          if ''_self'' \<in> set (map fst wkwargs)
          then Inl (TypeError (MultipleValuesForArgument ''_self''))
          else Inr (receiver, args, wkwargs))"

text \<open>
  \<^verbatim>\<open>method_wrapper\<close> (lines 113 to 115). Line 114 reads the registry; line 115
  evaluates \<^verbatim>\<open>_function(self=_self, *args, **kwargs)\<close>: the keyword
  \<^verbatim>\<open>self\<close> is merged with \<^verbatim>\<open>kwargs\<close> (a second \<^verbatim>\<open>self\<close> there
  is a \<^verbatim>\<open>TypeError\<close>) and the call goes to
  \<^verbatim>\<open>OverloadedFunction.__call__\<close> with the receiver among the keyword arguments.
\<close>

definition call_method_wrapper ::
  "Overloader \<Rightarrow> callable \<Rightarrow> pyval list \<Rightarrow> kwargs \<Rightarrow> call_outcome" where
  "call_method_wrapper self function wargs wkwargs =
     (case bind_method_wrapper wargs wkwargs of
        Inl e \<Rightarrow> raise e
      | Inr (receiver, args, kwargs) \<Rightarrow>
          (case qualname function of
             None \<Rightarrow> raise (AttributeError ''__qualname__'')
           | Some q \<Rightarrow>
               (case name_registry self q of
                  None \<Rightarrow> raise (KeyError q)
                | Some function' \<Rightarrow>
                    if ''self'' \<in> set (map fst kwargs)
                    then raise (TypeError (MultipleValuesForKeywordArgument ''self''))
                    else OverloadedFunction_call function' args ((''self'', receiver) # kwargs))))"

text \<open>
  Calling the name that a decoration \<^verbatim>\<open>@overloader.overload\<close> has bound: the
  wrapper, or \<^verbatim>\<open>None\<close>, which is not callable.
\<close>

fun call_decorated ::
  "Overloader \<Rightarrow> wrapper option \<Rightarrow> pyval list \<Rightarrow> kwargs \<Rightarrow> call_outcome" where
  "call_decorated self None args kwargs = raise (TypeError NoneTypeNotCallable)"
| "call_decorated self (Some (function_wrapper function)) args kwargs =
     call_function_wrapper self function args kwargs"
| "call_decorated self (Some (method_wrapper function)) args kwargs =
     call_method_wrapper self function args kwargs"

text \<open>A sequence of calls of \<^verbatim>\<open>Overloader.register\<close>, stopping at the first exception.\<close>

fun register_all :: "Overloader \<Rightarrow> callable list \<Rightarrow> error + Overloader" where
  "register_all self [] = Inr self"
| "register_all self (function # rest) =
     (case Overloader_register self function of
        Inl e \<Rightarrow> Inl e
      | Inr self' \<Rightarrow> register_all self' rest)"

section \<open>Example callables\<close>

text \<open>
  \<^verbatim>\<open>def q(p1, ..., pn)\<close>: a plain function with the given qualified name and
  parameter names, no defaults, no variadic parameters.
\<close>

definition plain_function ::
  "string \<Rightarrow> string list \<Rightarrow> (pyval list \<Rightarrow> kwargs \<Rightarrow> error + pyval) \<Rightarrow> callable" where
  "plain_function q params b =
     \<lparr>kind = PlainFunction, qualname = Some q, truthy = True,
      getfullargspec =
        \<lparr>fas_args = params, fas_varargs = None, fas_varkw = None, fas_defaults = None,
         fas_kwonlyargs = [], fas_kwonlydefaults = None\<rparr>,
      body = b\<rparr>"

text \<open>The two functions of the greeting scenario; the second has the default \<^verbatim>\<open>"hi"\<close>.\<close>

definition greet_name :: "(pyval list \<Rightarrow> kwargs \<Rightarrow> error + pyval) \<Rightarrow> callable" where
  "greet_name b = plain_function ''greet'' [''name''] b"

definition greet_name_greeting :: "(pyval list \<Rightarrow> kwargs \<Rightarrow> error + pyval) \<Rightarrow> callable" where
  "greet_name_greeting b =
     (plain_function ''greet'' [''name'', ''greeting''] b)
       \<lparr>getfullargspec :=
          (getfullargspec (plain_function ''greet'' [''name'', ''greeting''] b))
            \<lparr>fas_defaults := Some [PyStr ''hi'']\<rparr>\<rparr>"

text \<open>
  A bound method \<^verbatim>\<open>obj.m\<close>: \<^verbatim>\<open>getfullargspec\<close> keeps the receiver's
  name in \<^verbatim>\<open>args\<close>.
\<close>

definition bound_method ::
  "string \<Rightarrow> string list \<Rightarrow> (pyval list \<Rightarrow> kwargs \<Rightarrow> error + pyval) \<Rightarrow> callable" where
  "bound_method q params b = (plain_function q params b)\<lparr>kind := BoundMethod\<rparr>"

text \<open>\<^verbatim>\<open>class Shape: def area(self, r): ...\<close>, decorated inside the class body.\<close>

definition shape_area :: callable where
  "shape_area = plain_function ''Shape.area'' [''self'', ''r''] (\<lambda>args kwargs. Inr (PyInt 12))"

text \<open>\<^verbatim>\<open>def square(x): ...\<close>\<close>

definition square :: callable where
  "square = plain_function ''square'' [''x''] (\<lambda>args kwargs. Inr (PyInt 9))"

text \<open>The bound method \<^verbatim>\<open>vector.scale\<close> of \<^verbatim>\<open>def scale(self, factor): ...\<close>\<close>

definition vector_scale :: callable where
  "vector_scale =
     bound_method ''Vector.scale'' [''self'', ''factor''] (\<lambda>args kwargs. Inr (PyObj 1))"

text \<open>\<^verbatim>\<open>def add(x, y): ...\<close> and \<^verbatim>\<open>def add(x, y, z): ...\<close>\<close>

definition add_xy :: callable where
  "add_xy = plain_function ''add'' [''x'', ''y''] (\<lambda>args kwargs. Inr (PyStr ''two''))"

definition add_xyz :: callable where
  "add_xyz = plain_function ''add'' [''x'', ''y'', ''z''] (\<lambda>args kwargs. Inr (PyStr ''three''))"

text \<open>\<^verbatim>\<open>def connect(host, *, timeout): ...\<close>\<close>

definition connect :: callable where
  "connect =
     (plain_function ''connect'' [''host''] (\<lambda>args kwargs. Inr PyNone))
       \<lparr>getfullargspec :=
          (getfullargspec (plain_function ''connect'' [''host''] (\<lambda>args kwargs. Inr PyNone)))
            \<lparr>fas_kwonlyargs := [''timeout'']\<rparr>\<rparr>"

text \<open>
  \<^verbatim>\<open>class Point: def __init__(self, x): ...\<close>: the class object has a
  \<^verbatim>\<open>__qualname__\<close>. An instance of
  \<^verbatim>\<open>class Doubler: def __call__(self, x): ...\<close> has none.
\<close>

definition point_class :: callable where
  "point_class =
     (plain_function ''Point'' [''self'', ''x''] (\<lambda>args kwargs. Inr (PyObj 2)))
       \<lparr>kind := OtherCallable\<rparr>"

definition doubler_instance :: callable where
  "doubler_instance =
     (plain_function [] [''self'', ''x''] (\<lambda>args kwargs. Inr (PyInt 4)))
       \<lparr>kind := OtherCallable, qualname := None\<rparr>"

section \<open>Properties of the lookup\<close>

lemma remaining_from_position:
  "map snd (filter (\<lambda>(i, p). n \<le> i) (enumerate m params)) = drop (n - m) params"
proof (induction params arbitrary: m)
  case Nil
  show ?case by simp
next
  case (Cons p ps)
  show ?case
  proof (cases "n \<le> m")
    case True
    then have "n - Suc m = 0" and "n - m = 0" by simp_all
    with Cons [of "Suc m"] True show ?thesis by simp
  next
    case False
    then have "n - m = Suc (n - Suc m)" by simp
    with Cons [of "Suc m"] False show ?thesis by simp
  qed
qed

lemma spec_remaining_is_slice:
  "spec_remaining_parameters params n = drop n params"
  by (simp add: spec_remaining_parameters_def remaining_from_position)

lemma py_bool_declared:
  "name \<noteq> Some [] \<Longrightarrow> py_bool name = (name \<noteq> None)"
  by (cases name) simp_all

lemma lookup_loop_step:
  assumes "declared_names_nonempty c"
  shows "lookup_loop (c # rest) args kwargs =
           (if spec_accepts c args kwargs then Some c else lookup_loop rest args kwargs)"
  using assms
  by (auto simp: declared_names_nonempty_def spec_accepts_def spec_positional_compatible_def
      spec_keyword_compatible_def spec_remaining_is_slice py_bool_declared Let_def)

section \<open>Properties of calls and of registration\<close>

lemma lookup_loop_append:
  "lookup_loop (xs @ ys) args kwargs =
     (case lookup_loop xs args kwargs of Some c \<Rightarrow> Some c | None \<Rightarrow> lookup_loop ys args kwargs)"
  by (induction xs) (simp_all add: Let_def)

lemma lookup_loop_find:
  "\<forall>c \<in> set reg. declared_names_nonempty c \<Longrightarrow>
   lookup_loop reg args kwargs = find (\<lambda>c. spec_accepts c args kwargs) reg"
proof (induction reg)
  case Nil
  show ?case by simp
next
  case (Cons c reg)
  then have "declared_names_nonempty c" by simp
  from lookup_loop_step [OF this] Cons show ?case by simp
qed

lemma call_first_match:
  assumes "''self'' \<notin> set (map fst kwargs)"
    and "OverloadedFunction_lookup ds args kwargs = Some f"
    and "truthy f"
  shows "OverloadedFunction_call ds args kwargs =
           \<lparr>invoked = [f], outcome = body f args kwargs\<rparr>"
  using assms by (simp add: OverloadedFunction_call_def)

lemma call_returns_first_accepted:
  assumes "\<forall>c \<in> set (function_registry ds). declared_names_nonempty c"
    and "''self'' \<notin> set (map fst kwargs)"
    and "find (\<lambda>c. spec_accepts c args kwargs) (function_registry ds) = Some f"
    and "truthy f"
  shows "OverloadedFunction_call ds args kwargs =
           \<lparr>invoked = [f], outcome = body f args kwargs\<rparr>"
proof -
  from assms(1,3) have "OverloadedFunction_lookup ds args kwargs = Some f"
    by (simp add: OverloadedFunction_lookup_def lookup_loop_find)
  from call_first_match [OF assms(2) this assms(4)] show ?thesis .
qed

lemma call_no_match:
  assumes "''self'' \<notin> set (map fst kwargs)"
    and "OverloadedFunction_lookup ds args kwargs = None"
  shows "OverloadedFunction_call ds args kwargs =
           raise (OverloadedFunctionError (no_match_message args kwargs))"
  using assms by (simp add: OverloadedFunction_call_def)

lemma call_method_wrapper_raises:
  "invoked (call_method_wrapper st f wargs wkwargs) = [] \<and>
   (\<exists>e. outcome (call_method_wrapper st f wargs wkwargs) = Inl e)"
  by (auto simp: call_method_wrapper_def OverloadedFunction_call_def raise_def
      split: sum.splits option.splits prod.splits)

lemma OverloadedFunction_update_registry:
  "ds\<lparr>function_registry := xs\<rparr> = \<lparr>function_registry = xs\<rparr>"
  by (cases ds) simp

lemma Overloader_register_entry:
  assumes "qualname f = Some q"
  shows "Overloader_register st f =
           Inr (st\<lparr>name_registry := (name_registry st)(q \<mapsto>
                  \<lparr>function_registry =
                     (case name_registry st q of None \<Rightarrow> [] | Some ds \<Rightarrow> function_registry ds) @ [f]\<rparr>)\<rparr>)"
  using assms
  by (auto simp: Overloader_register_def OverloadedFunction_register_def
      OverloadedFunction_init_def OverloadedFunction_update_registry Let_def dom_def
      split: option.splits)

lemma call_function_wrapper_current:
  assumes "qualname f = Some q"
  shows "call_decorated st (Some (function_wrapper f)) args kwargs =
           (case name_registry st q of
              None \<Rightarrow> raise (KeyError q)
            | Some ds \<Rightarrow> OverloadedFunction_call ds args kwargs)"
  using assms by (simp add: call_function_wrapper_def)

lemma register_all_entries:
  assumes "\<forall>f \<in> set fs. qualname f \<noteq> None"
  shows "\<exists>st'. register_all st fs = Inr st' \<and>
           (\<forall>q. name_registry st' q =
              (if filter (\<lambda>f. qualname f = Some q) fs = [] then name_registry st q
               else Some \<lparr>function_registry =
                      (case name_registry st q of None \<Rightarrow> [] | Some ds \<Rightarrow> function_registry ds) @
                      filter (\<lambda>f. qualname f = Some q) fs\<rparr>))"
  using assms
proof (induction fs arbitrary: st)
  case Nil
  show ?case by simp
next
  case (Cons f fs)
  then obtain p where p: "qualname f = Some p" by auto
  let ?old = "case name_registry st p of None \<Rightarrow> [] | Some ds \<Rightarrow> function_registry ds"
  let ?st1 = "st\<lparr>name_registry := (name_registry st)(p \<mapsto> \<lparr>function_registry = ?old @ [f]\<rparr>)\<rparr>"
  have reg: "Overloader_register st f = Inr ?st1"
    by (rule Overloader_register_entry [OF p])
  from Cons.prems have "\<forall>g \<in> set fs. qualname g \<noteq> None" by simp
  from Cons.IH [OF this, of ?st1] obtain st' where
    all: "register_all ?st1 fs = Inr st'" and
    entries: "\<And>q. name_registry st' q =
        (if filter (\<lambda>f. qualname f = Some q) fs = [] then name_registry ?st1 q
         else Some \<lparr>function_registry =
                (case name_registry ?st1 q of None \<Rightarrow> [] | Some ds \<Rightarrow> function_registry ds) @
                filter (\<lambda>f. qualname f = Some q) fs\<rparr>)"
    by blast
  have "register_all st (f # fs) = Inr st'"
    using reg all by simp
  moreover have "name_registry st' q =
      (if filter (\<lambda>g. qualname g = Some q) (f # fs) = [] then name_registry st q
       else Some \<lparr>function_registry =
              (case name_registry st q of None \<Rightarrow> [] | Some ds \<Rightarrow> function_registry ds) @
              filter (\<lambda>g. qualname g = Some q) (f # fs)\<rparr>)" for q
  proof (cases "q = p")
    case True
    then show ?thesis using entries [of q] p by simp
  next
    case False
    then show ?thesis using entries [of q] p by simp
  qed
  ultimately show ?case by blast
qed

section \<open>The claims\<close>

text \<open>
  C1. The claim: whenever some registered candidate passes the acceptance test, invoking
  the dispatch set returns what the first such candidate returns on the given arguments.
  The code breaks it for a call with a keyword argument named \<^verbatim>\<open>self\<close>:
  for \<^verbatim>\<open>def area(self, r)\<close> and the call
  \<^verbatim>\<open>area(self=obj, r=2)\<close> the lookup selects the candidate, which returns 12
  on these arguments, but the call of \<^verbatim>\<open>__call__\<close> raises
  \<^verbatim>\<open>TypeError\<close> and no candidate runs, be it on the dispatch set itself or
  through the decorated name. (For calls without such a keyword the claim holds when the
  selected candidate is truthy: lemma \<open>call_returns_first_accepted\<close>.)
\<close>

theorem self_keyword_never_reaches_candidate:
  "OverloadedFunction_lookup \<lparr>function_registry = [shape_area]\<rparr> []
      [(''self'', PyObj 0), (''r'', PyInt 2)] = Some shape_area \<and>
   body shape_area [] [(''self'', PyObj 0), (''r'', PyInt 2)] = Inr (PyInt 12) \<and>
   OverloadedFunction_call \<lparr>function_registry = [shape_area]\<rparr> []
      [(''self'', PyObj 0), (''r'', PyInt 2)] =
     raise (TypeError (MultipleValuesForArgument ''self'')) \<and>
   Overloader_overload Overloader_init shape_area =
     Inr (\<lparr>name_registry = [''Shape.area'' \<mapsto> \<lparr>function_registry = [shape_area]\<rparr>]\<rparr>,
          Some (function_wrapper shape_area)) \<and>
   call_decorated \<lparr>name_registry = [''Shape.area'' \<mapsto> \<lparr>function_registry = [shape_area]\<rparr>]\<rparr>
       (Some (function_wrapper shape_area)) [] [(''self'', PyObj 0), (''r'', PyInt 2)] =
     raise (TypeError (MultipleValuesForArgument ''self''))"
  by (simp add: OverloadedFunction_lookup_def OverloadedFunction_call_def
      Overloader_overload_def Overloader_register_entry Overloader_init_def isfunction_def
      call_function_wrapper_def shape_area_def plain_function_def)

text \<open>
  C2. The claim: whenever no registered candidate passes the acceptance test, invoking
  the dispatch set raises \<^verbatim>\<open>OverloadedFunctionError\<close> with the arguments in
  its message, and no candidate runs. The code breaks it for a call with a keyword
  argument named \<^verbatim>\<open>self\<close>: for \<^verbatim>\<open>def square(x)\<close> and the call
  \<^verbatim>\<open>square(self=3)\<close> no candidate matches, and the exception is a
  \<^verbatim>\<open>TypeError\<close>; likewise for the call that line 115 makes on behalf of
  \<^verbatim>\<open>wrapper(obj, 2)\<close> for the bound method \<^verbatim>\<open>vector.scale\<close>. (For
  calls without such a keyword the claim holds: lemma \<open>call_no_match\<close>.)
\<close>

theorem no_match_with_self_keyword_is_type_error:
  "OverloadedFunction_lookup \<lparr>function_registry = [square]\<rparr> [] [(''self'', PyInt 3)] = None \<and>
   OverloadedFunction_call \<lparr>function_registry = [square]\<rparr> [] [(''self'', PyInt 3)] =
     raise (TypeError (MultipleValuesForArgument ''self'')) \<and>
   OverloadedFunction_call \<lparr>function_registry = [square]\<rparr> [] [(''self'', PyInt 3)] \<noteq>
     raise (OverloadedFunctionError (no_match_message [] [(''self'', PyInt 3)])) \<and>
   OverloadedFunction_lookup \<lparr>function_registry = [vector_scale]\<rparr>
      [PyInt 2] [(''self'', PyObj 0)] = None \<and>
   OverloadedFunction_call \<lparr>function_registry = [vector_scale]\<rparr>
      [PyInt 2] [(''self'', PyObj 0)] =
     raise (TypeError (MultipleValuesForArgument ''self''))"
  by (simp add: OverloadedFunction_lookup_def OverloadedFunction_call_def raise_def
      square_def vector_scale_def bound_method_def plain_function_def)

text \<open>
  C3. For every candidate and every call, the scan of \<^verbatim>\<open>lookup\<close> accepts the
  candidate (stops and returns it) exactly when the acceptance test of the specification
  holds: the positional arguments are at most as many as the named parameters or the
  candidate declares varargs, and every keyword name is among the named parameters at
  positions at or after the count of positional arguments or the candidate declares
  varkw. Otherwise the scan moves on to the next candidate.
\<close>

theorem acceptance_test_as_specified:
  assumes "declared_names_nonempty c"
  shows "lookup_loop (c # rest) args kwargs =
           (if spec_accepts c args kwargs then Some c else lookup_loop rest args kwargs) \<and>
         (OverloadedFunction_lookup \<lparr>function_registry = [c]\<rparr> args kwargs = Some c) =
           spec_accepts c args kwargs"
  using lookup_loop_step [OF assms, of _ args kwargs]
  by (simp add: OverloadedFunction_lookup_def)

theorem acceptance_test_as_specified_witness:
  "declared_names_nonempty connect \<and>
   spec_accepts connect [PyStr ''h''] [] \<and>
   \<not> spec_accepts connect [PyStr ''h'', PyInt 1] [] \<and>
   \<not> spec_accepts connect [] [(''port'', PyInt 1)] \<and>
   lookup_loop [connect, square] [PyStr ''h''] [] = Some connect \<and>
   lookup_loop [connect, square] [] [(''x'', PyInt 1)] = Some square"
  using acceptance_test_as_specified [of connect "[square]" "[PyStr ''h'']" "[]"]
    acceptance_test_as_specified [of connect "[square]" "[]" "[(''x'', PyInt 1)]"]
  by (simp add: connect_def square_def plain_function_def declared_names_nonempty_def
      spec_accepts_def spec_positional_compatible_def spec_keyword_compatible_def
      spec_remaining_is_slice)

text \<open>
  C4. For every plain function given to the decorator, the decorator returns the
  function wrapper, and every call of that wrapper dispatches on the dispatch set that
  the controller holds under the function's qualified name at the time of the call. So
  a candidate registered under the same name after the wrapper was made is selected
  through that wrapper: a call that found no match before the registration returns the
  new candidate's result after it.
\<close>

theorem function_wrapper_reads_registry_at_call_time:
  assumes "isfunction f" and "qualname f = Some q"
  shows "\<exists>st1 ds1.
           Overloader_overload st f = Inr (st1, Some (function_wrapper f)) \<and>
           name_registry st1 q = Some ds1 \<and>
           (\<forall>st2 args kwargs.
              call_decorated st2 (Some (function_wrapper f)) args kwargs =
                (case name_registry st2 q of
                   None \<Rightarrow> raise (KeyError q)
                 | Some ds \<Rightarrow> OverloadedFunction_call ds args kwargs)) \<and>
           (\<forall>g args kwargs.
              qualname g = Some q \<and> truthy g \<and> ''self'' \<notin> set (map fst kwargs) \<and>
              OverloadedFunction_lookup ds1 args kwargs = None \<and>
              lookup_loop [g] args kwargs = Some g \<longrightarrow>
              (\<exists>st2. Overloader_register st1 g = Inr st2 \<and>
                 call_decorated st1 (Some (function_wrapper f)) args kwargs =
                   raise (OverloadedFunctionError (no_match_message args kwargs)) \<and>
                 call_decorated st2 (Some (function_wrapper f)) args kwargs =
                   \<lparr>invoked = [g], outcome = body g args kwargs\<rparr>))"
proof -
  let ?ds1 = "\<lparr>function_registry =
     (case name_registry st q of None \<Rightarrow> [] | Some ds \<Rightarrow> function_registry ds) @ [f]\<rparr>"
  let ?st1 = "st\<lparr>name_registry := (name_registry st)(q \<mapsto> ?ds1)\<rparr>"
  have ov: "Overloader_overload st f = Inr (?st1, Some (function_wrapper f))"
    using assms by (simp add: Overloader_overload_def Overloader_register_entry)
  have entry: "name_registry ?st1 q = Some ?ds1" by simp
  have current: "\<forall>st2 args kwargs.
      call_decorated st2 (Some (function_wrapper f)) args kwargs =
        (case name_registry st2 q of
           None \<Rightarrow> raise (KeyError q)
         | Some ds \<Rightarrow> OverloadedFunction_call ds args kwargs)"
    using call_function_wrapper_current [OF assms(2)] by blast
  have later: "\<exists>st2. Overloader_register ?st1 g = Inr st2 \<and>
         call_decorated ?st1 (Some (function_wrapper f)) args kwargs =
           raise (OverloadedFunctionError (no_match_message args kwargs)) \<and>
         call_decorated st2 (Some (function_wrapper f)) args kwargs =
           \<lparr>invoked = [g], outcome = body g args kwargs\<rparr>"
    if g: "qualname g = Some q" "truthy g" "''self'' \<notin> set (map fst kwargs)"
      and none: "OverloadedFunction_lookup ?ds1 args kwargs = None"
      and acc: "lookup_loop [g] args kwargs = Some g"
    for g args kwargs
  proof -
    let ?ds2 = "\<lparr>function_registry = function_registry ?ds1 @ [g]\<rparr>"
    let ?st2 = "?st1\<lparr>name_registry := (name_registry ?st1)(q \<mapsto> ?ds2)\<rparr>"
    have reg: "Overloader_register ?st1 g = Inr ?st2"
      using Overloader_register_entry [OF g(1), of ?st1] by simp
    have before: "call_decorated ?st1 (Some (function_wrapper f)) args kwargs =
        raise (OverloadedFunctionError (no_match_message args kwargs))"
      using call_function_wrapper_current [OF assms(2), of ?st1 args kwargs]
        call_no_match [OF g(3) none] by simp
    have none': "lookup_loop (function_registry ?ds1) args kwargs = None"
      using none by (simp only: OverloadedFunction_lookup_def)
    have "lookup_loop (function_registry ?ds1 @ [g]) args kwargs = Some g"
      by (simp only: lookup_loop_append none' acc option.case)
    then have "OverloadedFunction_lookup ?ds2 args kwargs = Some g"
      by (simp add: OverloadedFunction_lookup_def)
    from call_first_match [OF g(3) this g(2)]
    have after: "call_decorated ?st2 (Some (function_wrapper f)) args kwargs =
        \<lparr>invoked = [g], outcome = body g args kwargs\<rparr>"
      using call_function_wrapper_current [OF assms(2), of ?st2 args kwargs] by simp
    from reg before after show ?thesis by blast
  qed
  from ov entry current later show ?thesis by blast
qed

theorem function_wrapper_reads_registry_at_call_time_witness:
  "isfunction add_xy \<and> qualname add_xy = Some ''add'' \<and>
   (case Overloader_overload Overloader_init add_xy of
      Inl e \<Rightarrow> False
    | Inr (st1, w) \<Rightarrow>
        w = Some (function_wrapper add_xy) \<and>
        call_decorated st1 w [PyInt 1, PyInt 2, PyInt 3] [] =
          raise (OverloadedFunctionError (no_match_message [PyInt 1, PyInt 2, PyInt 3] [])) \<and>
        (case Overloader_register st1 add_xyz of
           Inl e \<Rightarrow> False
         | Inr st2 \<Rightarrow>
             call_decorated st2 w [PyInt 1, PyInt 2, PyInt 3] [] =
               \<lparr>invoked = [add_xyz], outcome = Inr (PyStr ''three'')\<rparr> \<and>
             call_decorated st2 w [PyInt 1, PyInt 2] [] =
               \<lparr>invoked = [add_xy], outcome = Inr (PyStr ''two'')\<rparr>))"
  using function_wrapper_reads_registry_at_call_time [of add_xy "''add''" Overloader_init]
  by (simp add: Overloader_overload_def Overloader_register_entry Overloader_init_def
      isfunction_def call_function_wrapper_def OverloadedFunction_call_def
      OverloadedFunction_lookup_def add_xy_def add_xyz_def plain_function_def)

text \<open>
  C5. The claim: the wrapper returned for a bound method passes the receiver and the
  remaining arguments to the dispatch set and returns the selected overload's result.
  The code passes the receiver as the keyword argument \<^verbatim>\<open>self\<close>, which
  \<^verbatim>\<open>OverloadedFunction.__call__\<close> cannot take: for the bound method
  \<^verbatim>\<open>vector.scale\<close> the call \<^verbatim>\<open>wrapper(obj, 2)\<close> raises
  \<^verbatim>\<open>TypeError\<close>, although the method itself would return. (No call of a
  method wrapper ever runs a candidate: lemma \<open>call_method_wrapper_raises\<close>.)
\<close>

theorem method_wrapper_always_raises_type_error:
  "Overloader_overload Overloader_init vector_scale =
     Inr (\<lparr>name_registry = [''Vector.scale'' \<mapsto> \<lparr>function_registry = [vector_scale]\<rparr>]\<rparr>,
          Some (method_wrapper vector_scale)) \<and>
   call_decorated \<lparr>name_registry = [''Vector.scale'' \<mapsto> \<lparr>function_registry = [vector_scale]\<rparr>]\<rparr>
       (Some (method_wrapper vector_scale)) [PyObj 0, PyInt 2] [] =
     raise (TypeError (MultipleValuesForArgument ''self''))"
  by (simp add: Overloader_overload_def Overloader_register_entry Overloader_init_def
      isfunction_def ismethod_def call_method_wrapper_def bind_method_wrapper_def
      OverloadedFunction_call_def vector_scale_def bound_method_def plain_function_def)

text \<open>
  C6. After any sequence of \<^verbatim>\<open>Overloader.register\<close> calls on callables that
  have a qualified name, each qualified name is bound to one dispatch set, which holds
  what was there before followed by exactly the callables of the sequence with that
  name, in the order of the sequence; names that the sequence does not mention keep
  their binding. A single registration appends to the dispatch set found under the
  name, and to a fresh empty one only when the name is unbound.
\<close>

theorem registrations_grouped_by_qualname:
  assumes "\<forall>f \<in> set fs. qualname f \<noteq> None"
  shows "\<exists>st'. register_all st fs = Inr st' \<and>
           (\<forall>q. name_registry st' q =
              (if filter (\<lambda>f. qualname f = Some q) fs = [] then name_registry st q
               else Some \<lparr>function_registry =
                      (case name_registry st q of None \<Rightarrow> [] | Some ds \<Rightarrow> function_registry ds) @
                      filter (\<lambda>f. qualname f = Some q) fs\<rparr>)) \<and>
           (\<forall>f q. qualname f = Some q \<longrightarrow>
              Overloader_register st f =
                Inr (st\<lparr>name_registry := (name_registry st)(q \<mapsto>
                       OverloadedFunction_register
                         (case name_registry st q of
                            None \<Rightarrow> OverloadedFunction_init
                          | Some ds \<Rightarrow> ds) f)\<rparr>))"
proof -
  have step: "Overloader_register st f =
      Inr (st\<lparr>name_registry := (name_registry st)(q \<mapsto>
             OverloadedFunction_register
               (case name_registry st q of None \<Rightarrow> OverloadedFunction_init | Some ds \<Rightarrow> ds) f)\<rparr>)"
    if "qualname f = Some q" for f q
    using Overloader_register_entry [OF that, of st]
    by (simp add: OverloadedFunction_register_def OverloadedFunction_init_def
        OverloadedFunction_update_registry split: option.splits)
  from register_all_entries [OF assms, of st] step show ?thesis by blast
qed

theorem registrations_grouped_by_qualname_witness:
  "map qualname [add_xy, square, add_xyz] = [Some ''add'', Some ''square'', Some ''add''] \<and>
   (case register_all Overloader_init [add_xy, square, add_xyz] of
      Inl e \<Rightarrow> False
    | Inr st' \<Rightarrow>
        name_registry st' ''add'' = Some \<lparr>function_registry = [add_xy, add_xyz]\<rparr> \<and>
        name_registry st' ''square'' = Some \<lparr>function_registry = [square]\<rparr> \<and>
        name_registry st' ''cube'' = None)"
proof -
  have q: "\<forall>f \<in> set [add_xy, square, add_xyz]. qualname f \<noteq> None"
    by (simp add: add_xy_def add_xyz_def square_def plain_function_def)
  from registrations_grouped_by_qualname [OF q, of Overloader_init]
  obtain st' where
    all: "register_all Overloader_init [add_xy, square, add_xyz] = Inr st'" and
    entries: "\<And>q. name_registry st' q =
        (if filter (\<lambda>f. qualname f = Some q) [add_xy, square, add_xyz] = []
         then name_registry Overloader_init q
         else Some \<lparr>function_registry =
                (case name_registry Overloader_init q of
                   None \<Rightarrow> [] | Some ds \<Rightarrow> function_registry ds) @
                filter (\<lambda>f. qualname f = Some q) [add_xy, square, add_xyz]\<rparr>)"
    by blast
  have "name_registry st' ''add'' = Some \<lparr>function_registry = [add_xy, add_xyz]\<rparr>"
    using entries [of "''add''"]
    by (simp add: add_xy_def add_xyz_def square_def plain_function_def Overloader_init_def)
  moreover have "name_registry st' ''square'' = Some \<lparr>function_registry = [square]\<rparr>"
    using entries [of "''square''"]
    by (simp add: add_xy_def add_xyz_def square_def plain_function_def Overloader_init_def)
  moreover have "name_registry st' ''cube'' = None"
    using entries [of "''cube''"]
    by (simp add: add_xy_def add_xyz_def square_def plain_function_def Overloader_init_def)
  moreover have "map qualname [add_xy, square, add_xyz] =
      [Some ''add'', Some ''square'', Some ''add'']"
    by (simp add: add_xy_def add_xyz_def square_def plain_function_def)
  ultimately show ?thesis using all by simp
qed

text \<open>
  C7. With \<^verbatim>\<open>greet(name)\<close> registered before
  \<^verbatim>\<open>greet(name, greeting="hi")\<close>, the call
  \<^verbatim>\<open>greet("A", greeting="yo")\<close> resolves to the second: the first passes
  the positional test but has no parameter left after one positional argument, so the
  keyword \<^verbatim>\<open>greeting\<close> is refused; the remaining parameters of the second
  include it. The same holds through the decorator, for either decorated name, whatever
  the two function bodies are.
\<close>

theorem greeting_keyword_selects_second_overload:
  "OverloadedFunction_lookup \<lparr>function_registry = [greet_name b1, greet_name_greeting b2]\<rparr>
      [PyStr ''A''] [(''greeting'', PyStr ''yo'')] = Some (greet_name_greeting b2) \<and>
   length [PyStr ''A''] \<le> length (fas_args (getfullargspec (greet_name b1))) \<and>
   drop (length [PyStr ''A'']) (fas_args (getfullargspec (greet_name b1))) = [] \<and>
   OverloadedFunction_lookup \<lparr>function_registry = [greet_name b1]\<rparr>
      [PyStr ''A''] [(''greeting'', PyStr ''yo'')] = None \<and>
   ''greeting'' \<in> set (drop (length [PyStr ''A''])
                          (fas_args (getfullargspec (greet_name_greeting b2)))) \<and>
   (case Overloader_overload Overloader_init (greet_name b1) of
      Inl e \<Rightarrow> False
    | Inr (st1, greet1) \<Rightarrow>
        (case Overloader_overload st1 (greet_name_greeting b2) of
           Inl e \<Rightarrow> False
         | Inr (st2, greet2) \<Rightarrow>
             call_decorated st2 greet2 [PyStr ''A''] [(''greeting'', PyStr ''yo'')] =
               \<lparr>invoked = [greet_name_greeting b2],
                outcome = b2 [PyStr ''A''] [(''greeting'', PyStr ''yo'')]\<rparr> \<and>
             call_decorated st2 greet1 [PyStr ''A''] [(''greeting'', PyStr ''yo'')] =
               \<lparr>invoked = [greet_name_greeting b2],
                outcome = b2 [PyStr ''A''] [(''greeting'', PyStr ''yo'')]\<rparr>))"
  by (simp add: OverloadedFunction_lookup_def Overloader_overload_def
      Overloader_register_entry Overloader_init_def isfunction_def
      call_function_wrapper_def OverloadedFunction_call_def greet_name_def
      greet_name_greeting_def plain_function_def)

text \<open>
  C8. Default values play no role in the acceptance test: replacing the defaults (and
  the keyword-only defaults) of a candidate by anything leaves the verdict of the scan
  on it unchanged. A call with fewer positional arguments than named parameters and
  compatible keywords is accepted; a call with more positional arguments than named
  parameters is rejected when the candidate declares no varargs, and accepted (keywords
  permitting) when it does.
\<close>

theorem defaults_play_no_role_in_matching:
  assumes "declared_names_nonempty c"
  shows "lookup_loop
           (c\<lparr>getfullargspec :=
                (getfullargspec c)\<lparr>fas_defaults := d, fas_kwonlydefaults := kd\<rparr>\<rparr> # rest)
           args kwargs =
         (if lookup_loop [c] args kwargs = Some c
          then Some (c\<lparr>getfullargspec :=
                        (getfullargspec c)\<lparr>fas_defaults := d, fas_kwonlydefaults := kd\<rparr>\<rparr>)
          else lookup_loop rest args kwargs) \<and>
         (length args < length (fas_args (getfullargspec c)) \<and>
          spec_keyword_compatible c args kwargs \<longrightarrow>
            lookup_loop (c # rest) args kwargs = Some c) \<and>
         (length (fas_args (getfullargspec c)) < length args \<and>
          fas_varargs (getfullargspec c) = None \<longrightarrow>
            lookup_loop (c # rest) args kwargs = lookup_loop rest args kwargs) \<and>
         (length (fas_args (getfullargspec c)) < length args \<and>
          fas_varargs (getfullargspec c) \<noteq> None \<and>
          spec_keyword_compatible c args kwargs \<longrightarrow>
            lookup_loop (c # rest) args kwargs = Some c)"
proof -
  have one: "lookup_loop
           (c\<lparr>getfullargspec :=
                (getfullargspec c)\<lparr>fas_defaults := d, fas_kwonlydefaults := kd\<rparr>\<rparr> # rest)
           args kwargs =
         (if lookup_loop [c] args kwargs = Some c
          then Some (c\<lparr>getfullargspec :=
                        (getfullargspec c)\<lparr>fas_defaults := d, fas_kwonlydefaults := kd\<rparr>\<rparr>)
          else lookup_loop rest args kwargs)"
    by (simp add: Let_def)
  have two: "lookup_loop (c # rest) args kwargs = Some c"
    if "length args < length (fas_args (getfullargspec c))"
      and "spec_keyword_compatible c args kwargs"
    using that lookup_loop_step [OF assms, of rest args kwargs]
    by (simp add: spec_accepts_def spec_positional_compatible_def)
  have three: "lookup_loop (c # rest) args kwargs = lookup_loop rest args kwargs"
    if "length (fas_args (getfullargspec c)) < length args"
      and "fas_varargs (getfullargspec c) = None"
    using that by (simp add: Let_def)
  have four: "lookup_loop (c # rest) args kwargs = Some c"
    if "fas_varargs (getfullargspec c) \<noteq> None"
      and "spec_keyword_compatible c args kwargs"
    using that lookup_loop_step [OF assms, of rest args kwargs]
    by (simp add: spec_accepts_def spec_positional_compatible_def)
  from one two three four show ?thesis by blast
qed

theorem defaults_play_no_role_in_matching_witness:
  "declared_names_nonempty (greet_name_greeting (\<lambda>args kwargs. Inr PyNone)) \<and>
   fas_defaults (getfullargspec (greet_name_greeting (\<lambda>args kwargs. Inr PyNone))) =
     Some [PyStr ''hi''] \<and>
   fas_defaults (getfullargspec (add_xyz)) = None \<and>
   lookup_loop [greet_name_greeting (\<lambda>args kwargs. Inr PyNone)] [PyStr ''A''] [] =
     Some (greet_name_greeting (\<lambda>args kwargs. Inr PyNone)) \<and>
   lookup_loop [add_xyz] [PyInt 1] [] = Some add_xyz \<and>
   lookup_loop [add_xyz] [PyInt 1, PyInt 2, PyInt 3, PyInt 4] [] = None"
  using defaults_play_no_role_in_matching
      [of "greet_name_greeting (\<lambda>args kwargs. Inr PyNone)" None None "[]" "[PyStr ''A'']" "[]"]
    defaults_play_no_role_in_matching
      [of add_xyz None None "[]" "[PyInt 1]" "[]"]
    defaults_play_no_role_in_matching
      [of add_xyz None None "[]" "[PyInt 1, PyInt 2, PyInt 3, PyInt 4]" "[]"]
  by (simp add: greet_name_greeting_def add_xyz_def plain_function_def declared_names_nonempty_def)

text \<open>
  C9. A candidate with a keyword-only parameter \<open>k\<close> and no varkw rejects every call
  that passes \<open>k\<close> as a keyword: the keyword test reads only the positional parameter
  names \<^verbatim>\<open>fullargspec.args\<close>, and a keyword-only name is never among them
  (Python forbids two parameters of one name).
\<close>

theorem keyword_only_parameter_is_rejected:
  assumes "k \<in> set (fas_kwonlyargs (getfullargspec c))"
    and "distinct (fas_args (getfullargspec c) @ fas_kwonlyargs (getfullargspec c))"
    and "fas_varkw (getfullargspec c) = None"
    and "k \<in> set (map fst kwargs)"
  shows "lookup_loop (c # rest) args kwargs = lookup_loop rest args kwargs \<and>
         OverloadedFunction_lookup \<lparr>function_registry = [c]\<rparr> args kwargs = None"
proof -
  from assms(1,2) have "k \<notin> set (fas_args (getfullargspec c))" by auto
  then have "k \<notin> set (drop (length args) (fas_args (getfullargspec c)))"
    by (auto dest: in_set_dropD)
  with assms(4) have
    "\<not> set (map fst kwargs) \<subseteq> set (drop (length args) (fas_args (getfullargspec c)))"
    by blast
  with assms(3) have "lookup_loop (c # rest) args kwargs = lookup_loop rest args kwargs" for rest
    by (simp add: Let_def)
  then show ?thesis by (simp add: OverloadedFunction_lookup_def)
qed

theorem keyword_only_parameter_is_rejected_witness:
  "''timeout'' \<in> set (fas_kwonlyargs (getfullargspec connect)) \<and>
   distinct (fas_args (getfullargspec connect) @ fas_kwonlyargs (getfullargspec connect)) \<and>
   fas_varkw (getfullargspec connect) = None \<and>
   OverloadedFunction_lookup \<lparr>function_registry = [connect]\<rparr>
      [PyStr ''example.org''] [(''timeout'', PyInt 5)] = None \<and>
   OverloadedFunction_call \<lparr>function_registry = [connect]\<rparr>
      [PyStr ''example.org''] [(''timeout'', PyInt 5)] =
     raise (OverloadedFunctionError
       (no_match_message [PyStr ''example.org''] [(''timeout'', PyInt 5)]))"
  using keyword_only_parameter_is_rejected
      [of "''timeout''" connect "[(''timeout'', PyInt 5)]" "[]" "[PyStr ''example.org'']"]
  by (simp add: connect_def plain_function_def OverloadedFunction_call_def)

text \<open>
  C10. The claim as stated (every callable that is neither a plain function nor a bound
  method, a callable instance included, is appended and the decorator returns
  \<^verbatim>\<open>None\<close>) fails for an object without \<^verbatim>\<open>__qualname__\<close>, such as
  an ordinary instance with \<^verbatim>\<open>__call__\<close>: the registration raises
  \<^verbatim>\<open>AttributeError\<close>.
\<close>

theorem overload_of_other_callable_counterexample:
  "\<not> isfunction doubler_instance \<and> \<not> ismethod doubler_instance \<and>
   Overloader_overload Overloader_init doubler_instance = Inl (AttributeError ''__qualname__'')"
  by (simp add: isfunction_def ismethod_def Overloader_overload_def Overloader_register_def
      doubler_instance_def plain_function_def)

text \<open>
  C10, amended. For a callable that is neither a plain function nor a bound method and
  that has a qualified name (a class, say), the decorator appends it to the dispatch
  set of that name, leaves the other names alone and returns \<^verbatim>\<open>None\<close>, so
  calling the decorated name raises \<^verbatim>\<open>TypeError\<close>. For one without a
  qualified name the decorator raises \<^verbatim>\<open>AttributeError\<close>.
\<close>

theorem overload_of_other_callable:
  assumes "\<not> isfunction f" and "\<not> ismethod f"
  shows "(\<forall>q. qualname f = Some q \<longrightarrow>
            (\<exists>st' decorated.
               Overloader_overload st f = Inr (st', decorated) \<and>
               decorated = None \<and>
               name_registry st' q =
                 Some \<lparr>function_registry =
                    (case name_registry st q of None \<Rightarrow> [] | Some ds \<Rightarrow> function_registry ds) @ [f]\<rparr> \<and>
               (\<forall>p. p \<noteq> q \<longrightarrow> name_registry st' p = name_registry st p) \<and>
               (\<forall>st2 args kwargs.
                  call_decorated st2 decorated args kwargs =
                    raise (TypeError NoneTypeNotCallable)))) \<and>
         (qualname f = None \<longrightarrow>
            Overloader_overload st f = Inl (AttributeError ''__qualname__''))"
proof -
  have some: "\<exists>st' decorated.
       Overloader_overload st f = Inr (st', decorated) \<and>
       decorated = None \<and>
       name_registry st' q =
         Some \<lparr>function_registry =
            (case name_registry st q of None \<Rightarrow> [] | Some ds \<Rightarrow> function_registry ds) @ [f]\<rparr> \<and>
       (\<forall>p. p \<noteq> q \<longrightarrow> name_registry st' p = name_registry st p) \<and>
       (\<forall>st2 args kwargs.
          call_decorated st2 decorated args kwargs = raise (TypeError NoneTypeNotCallable))"
    if q: "qualname f = Some q" for q
    using assms by (simp add: Overloader_overload_def Overloader_register_entry [OF q])
  have none: "Overloader_overload st f = Inl (AttributeError ''__qualname__'')"
    if "qualname f = None"
    using that by (simp add: Overloader_overload_def Overloader_register_def)
  from some none show ?thesis by blast
qed

theorem overload_of_other_callable_witness:
  "\<not> isfunction point_class \<and> \<not> ismethod point_class \<and>
   qualname point_class = Some ''Point'' \<and>
   Overloader_overload Overloader_init point_class =
     Inr (\<lparr>name_registry = [''Point'' \<mapsto> \<lparr>function_registry = [point_class]\<rparr>]\<rparr>, None) \<and>
   call_decorated \<lparr>name_registry = [''Point'' \<mapsto> \<lparr>function_registry = [point_class]\<rparr>]\<rparr>
       None [PyInt 1] [] = raise (TypeError NoneTypeNotCallable) \<and>
   qualname doubler_instance = None \<and>
   Overloader_overload Overloader_init doubler_instance = Inl (AttributeError ''__qualname__'')"
proof -
  have k: "\<not> isfunction point_class" "\<not> ismethod point_class"
    "\<not> isfunction doubler_instance" "\<not> ismethod doubler_instance"
    by (simp_all add: isfunction_def ismethod_def point_class_def doubler_instance_def
        plain_function_def)
  from overload_of_other_callable [OF k(1,2), of Overloader_init]
    overload_of_other_callable [OF k(3,4), of Overloader_init]
  show ?thesis
    using k
    by (simp add: point_class_def doubler_instance_def plain_function_def
        Overloader_overload_def Overloader_register_entry Overloader_init_def
        isfunction_def ismethod_def)
qed

end
